theory Spec2Isabelle
  imports Complex_Main "HOL-Library.Word"
begin

section \<open>Time-gated lifetime imaging: RLD manager\<close>

text \<open>
  A shallow embedding of \<^verbatim>\<open>RLD_manager.py\<close> and of the settings and snapping handlers of
  \<^verbatim>\<open>main.py\<close>. Python integers are \<open>int\<close>. A Python or numpy float is a value of
  \<open>pyfloat\<close>: a finite value, one of the two infinities, or NaN. Finite values are exact
  reals, so rounding, overflow and underflow of binary64 arithmetic are not part of the
  model, and zero carries no sign. A raised exception is the left injection of a sum.
\<close>

subsection \<open>Floating-point values\<close>

datatype pyfloat = Fin real | PInf | NInf | NaN

datatype error = TypeError | ValueError | ParsingError | XiError | EmptyStack

text \<open>
  \<open>EmptyStack\<close> is the outcome the specification names for a reduction over no frames. No
  function of the source raises it; it is a constructor only so that statements about it can
  be written.
\<close>

definition ebind :: "error + 'a \<Rightarrow> ('a \<Rightarrow> error + 'b) \<Rightarrow> error + 'b" where
  "ebind m f = (case m of Inl e \<Rightarrow> Inl e | Inr x \<Rightarrow> f x)"

fun fl_neg :: "pyfloat \<Rightarrow> pyfloat" where
  "fl_neg (Fin a) = Fin (- a)"
| "fl_neg PInf = NInf"
| "fl_neg NInf = PInf"
| "fl_neg NaN = NaN"

fun fl_add :: "pyfloat \<Rightarrow> pyfloat \<Rightarrow> pyfloat" where
  "fl_add NaN _ = NaN"
| "fl_add _ NaN = NaN"
| "fl_add (Fin a) (Fin b) = Fin (a + b)"
| "fl_add (Fin a) PInf = PInf"
| "fl_add (Fin a) NInf = NInf"
| "fl_add PInf (Fin b) = PInf"
| "fl_add NInf (Fin b) = NInf"
| "fl_add PInf PInf = PInf"
| "fl_add NInf NInf = NInf"
| "fl_add PInf NInf = NaN"
| "fl_add NInf PInf = NaN"

definition fl_sub :: "pyfloat \<Rightarrow> pyfloat \<Rightarrow> pyfloat" where
  "fl_sub a b = fl_add a (fl_neg b)"

text \<open>The sign of a value that is not NaN: \<open>-1\<close>, \<open>0\<close> or \<open>1\<close>.\<close>

fun fl_sgn :: "pyfloat \<Rightarrow> int" where
  "fl_sgn (Fin a) = (if a < 0 then - 1 else if a = 0 then 0 else 1)"
| "fl_sgn PInf = 1"
| "fl_sgn NInf = - 1"
| "fl_sgn NaN = 0"

definition fl_inf :: "int \<Rightarrow> pyfloat" where
  "fl_inf s = (if s < 0 then NInf else if s = 0 then NaN else PInf)"

fun fl_mul :: "pyfloat \<Rightarrow> pyfloat \<Rightarrow> pyfloat" where
  "fl_mul NaN _ = NaN"
| "fl_mul _ NaN = NaN"
| "fl_mul (Fin a) (Fin b) = Fin (a * b)"
| "fl_mul a b = fl_inf (fl_sgn a * fl_sgn b)"

text \<open>
  numpy's true division of float64 values. A finite non-zero value over zero is an infinity
  with the sign of the numerator, zero over zero is NaN (numpy warns, it does not raise).
\<close>

fun fl_div :: "pyfloat \<Rightarrow> pyfloat \<Rightarrow> pyfloat" where
  "fl_div NaN _ = NaN"
| "fl_div _ NaN = NaN"
| "fl_div (Fin a) (Fin b) = (if b = 0 then fl_inf (fl_sgn (Fin a)) else Fin (a / b))"
| "fl_div (Fin a) _ = Fin 0"
| "fl_div a (Fin b) = fl_inf (fl_sgn a * (if b < 0 then - 1 else 1))"
| "fl_div _ _ = NaN"

text \<open>\<^verbatim>\<open>np.log\<close>: minus infinity at zero, NaN below zero (again with a warning only).\<close>

fun fl_log :: "pyfloat \<Rightarrow> pyfloat" where
  "fl_log (Fin a) = (if 0 < a then Fin (ln a) else if a = 0 then NInf else NaN)"
| "fl_log PInf = PInf"
| "fl_log NInf = NaN"
| "fl_log NaN = NaN"

text \<open>The comparisons \<^verbatim>\<open>x == 0\<close> and \<^verbatim>\<open>x < 0\<close>; both are false at NaN.\<close>

fun fl_is_zero :: "pyfloat \<Rightarrow> bool" where
  "fl_is_zero (Fin a) = (a = 0)"
| "fl_is_zero _ = False"

fun fl_is_neg :: "pyfloat \<Rightarrow> bool" where
  "fl_is_neg (Fin a) = (a < 0)"
| "fl_is_neg NInf = True"
| "fl_is_neg _ = False"

subsection \<open>Arrays\<close>

text \<open>
  A numpy value is a scalar (\<^verbatim>\<open>np.float64\<close>, which is also what arithmetic on a
  zero-dimensional array returns) or an array. The frames of one stack share one shape, so an
  array is the list of its pixels in storage order; two arrays of different size do not
  broadcast and the operation raises \<^verbatim>\<open>ValueError\<close>.
\<close>

datatype ndarray = Scalar pyfloat | Arr "pyfloat list"

fun nd_map :: "(pyfloat \<Rightarrow> pyfloat) \<Rightarrow> ndarray \<Rightarrow> ndarray" where
  "nd_map f (Scalar a) = Scalar (f a)"
| "nd_map f (Arr xs) = Arr (map f xs)"

fun nd_binop :: "(pyfloat \<Rightarrow> pyfloat \<Rightarrow> pyfloat) \<Rightarrow> ndarray \<Rightarrow> ndarray \<Rightarrow> error + ndarray" where
  "nd_binop f (Scalar a) (Scalar b) = Inr (Scalar (f a b))"
| "nd_binop f (Scalar a) (Arr ys) = Inr (Arr (map (f a) ys))"
| "nd_binop f (Arr xs) (Scalar b) = Inr (Arr (map (\<lambda>x. f x b) xs))"
| "nd_binop f (Arr xs) (Arr ys) =
     (if length xs = length ys then Inr (Arr (map2 f xs ys)) else Inl ValueError)"

text \<open>
  \<^verbatim>\<open>arr_copy[mask] = np.nan\<close>: on an array the masked pixels are overwritten; a numpy
  scalar does not support item assignment and the statement raises \<^verbatim>\<open>TypeError\<close>.
\<close>

fun nd_set_nan_where :: "(pyfloat \<Rightarrow> bool) \<Rightarrow> ndarray \<Rightarrow> error + ndarray" where
  "nd_set_nan_where m (Scalar a) = Inl TypeError"
| "nd_set_nan_where m (Arr xs) = Inr (Arr (map (\<lambda>x. if m x then NaN else x) xs))"

text \<open>
  A raw frame is a list of 16-bit pixels (\<^verbatim>\<open>XI_RAW16\<close>). \<^verbatim>\<open>np.average(frames, axis=0)\<close>
  is the pixelwise mean in float64. Over an empty list of frames numpy warns and returns the
  scalar NaN; frames of different size cannot be stacked.
\<close>

type_synonym frame = "16 word list"

definition np_average :: "frame list \<Rightarrow> error + ndarray" where
  "np_average fs =
     (case fs of
        [] \<Rightarrow> Inr (Scalar NaN)
      | f # rest \<Rightarrow>
          if list_all (\<lambda>g. length g = length f) rest
          then Inr (Arr (map (\<lambda>i. Fin ((\<Sum>g\<leftarrow>fs. real (unat (g ! i))) / real (length fs)))
                             [0..<length f]))
          else Inl ValueError)"

subsection \<open>Parameters\<close>

record ImagingParameters =
  sets_to_acquire :: int
  exposure_time_us :: int
  delay_window1_us :: pyfloat
  delay_window2_us :: pyfloat
  pulse_width_us :: pyfloat
  exposures_per_frame :: int
  end_delay_us :: int
  light_intensity :: int

definition default_params :: ImagingParameters where
  "default_params =
     \<lparr> sets_to_acquire = 3, exposure_time_us = 20, delay_window1_us = Fin 2.5,
       delay_window2_us = Fin 22.5, pulse_width_us = Fin 40, exposures_per_frame = 10,
       end_delay_us = 33, light_intensity = 100 \<rparr>"

subsection \<open>Post-processing\<close>

definition arr_replace_negatives_by_nan :: "ndarray \<Rightarrow> error + ndarray" where
  "arr_replace_negatives_by_nan arr =
     nd_set_nan_where fl_is_neg (nd_map (\<lambda>x. fl_mul x (Fin 1)) arr)"

definition arr_replace_zeroes_by_nan :: "ndarray \<Rightarrow> error + ndarray" where
  "arr_replace_zeroes_by_nan arr =
     nd_set_nan_where fl_is_zero (nd_map (\<lambda>x. fl_mul x (Fin 1)) arr)"

text \<open>
  The one expression of \<^verbatim>\<open>calculate_lifetime\<close>, in Python's order of evaluation: the two
  inner replacements, the quotient, the logarithm, the two outer replacements, and the
  division of \<open>delta_t\<close> by the result.
\<close>

definition calculate_lifetime :: "pyfloat \<Rightarrow> ndarray \<Rightarrow> ndarray \<Rightarrow> error + ndarray" where
  "calculate_lifetime delta_t arr_window1 arr_window2 =
     ebind (arr_replace_zeroes_by_nan arr_window1) (\<lambda>a.
     ebind (arr_replace_zeroes_by_nan arr_window2) (\<lambda>b.
     ebind (nd_binop fl_div a b) (\<lambda>ratio.
     ebind (arr_replace_zeroes_by_nan (nd_map fl_log ratio)) (\<lambda>z.
     ebind (arr_replace_negatives_by_nan z) (\<lambda>n.
     nd_binop fl_div (Scalar delta_t) n)))))"

text \<open>
  \<^verbatim>\<open>image_dict\<close> and \<^verbatim>\<open>image_start_time_dict\<close>: one list per key, the keys in the order
  of the dictionary literal.
\<close>

datatype window = Window1 | Window2 | Dark

record 'a window_dict =
  window1 :: "'a list"
  window2 :: "'a list"
  dark :: "'a list"

type_synonym image_dict = "frame window_dict"

definition empty_dict :: "'a window_dict" where
  "empty_dict = \<lparr> window1 = [], window2 = [], dark = [] \<rparr>"

definition dark_subtracted :: "frame list \<Rightarrow> ndarray \<Rightarrow> error + ndarray" where
  "dark_subtracted fs dark_avg = ebind (np_average fs) (\<lambda>avg. nd_binop fl_sub avg dark_avg)"

definition calculate_average_lifetime :: "ImagingParameters \<Rightarrow> image_dict \<Rightarrow> error + ndarray" where
  "calculate_average_lifetime params imgs =
     (let delta_t = fl_sub (delay_window2_us params) (delay_window1_us params) in
      ebind (np_average (dark imgs)) (\<lambda>dark_avg.
      ebind (dark_subtracted (window1 imgs) dark_avg) (\<lambda>window1_avg.
      ebind (dark_subtracted (window2 imgs) dark_avg) (\<lambda>window2_avg.
      calculate_lifetime delta_t window1_avg window2_avg))))"

text \<open>The three steps at one pixel, and their composition.\<close>

definition px_zero_nan :: "pyfloat \<Rightarrow> pyfloat" where
  "px_zero_nan x = (if fl_is_zero x then NaN else x)"

definition px_neg_nan :: "pyfloat \<Rightarrow> pyfloat" where
  "px_neg_nan x = (if fl_is_neg x then NaN else x)"

definition pixel_lifetime :: "pyfloat \<Rightarrow> pyfloat \<Rightarrow> pyfloat \<Rightarrow> pyfloat" where
  "pixel_lifetime delta_t x y =
     fl_div delta_t (px_neg_nan (px_zero_nan (fl_log (fl_div (px_zero_nan x) (px_zero_nan y)))))"

subsection \<open>Numbers as text\<close>

text \<open>
  \<^verbatim>\<open>str\<close> of an integer is its decimal numeral. \<^verbatim>\<open>int\<close> of a string strips white space,
  reads an optional sign and then decimal digits, where single underscores may separate
  digits; anything else raises \<^verbatim>\<open>ValueError\<close>, here \<open>None\<close>. Only ASCII text is modelled.
\<close>

definition digit_char :: "nat \<Rightarrow> char" where
  "digit_char d = ''0123456789'' ! d"

fun str_nat :: "nat \<Rightarrow> string" where
  "str_nat n = (if n < 10 then [digit_char n] else str_nat (n div 10) @ [digit_char (n mod 10)])"

declare str_nat.simps [simp del]

definition str_int :: "int \<Rightarrow> string" where
  "str_int i = (if i < 0 then CHR ''-'' # str_nat (nat (- i)) else str_nat (nat i))"

definition digit_val :: "char \<Rightarrow> nat option" where
  "digit_val c =
     (let n = (of_char c :: nat) in if 48 \<le> n \<and> n \<le> 57 then Some (n - 48) else None)"

definition is_space :: "char \<Rightarrow> bool" where
  "is_space c = (let n = (of_char c :: nat) in (9 \<le> n \<and> n \<le> 13) \<or> (28 \<le> n \<and> n \<le> 32))"

definition strip :: "string \<Rightarrow> string" where
  "strip s = rev (dropWhile is_space (rev (dropWhile is_space s)))"

text \<open>
  \<open>take_digits\<close> reads the longest prefix of the form digit, then any number of digits
  each optionally preceded by one underscore. It returns the digits read and the rest.
\<close>

fun take_digits :: "string \<Rightarrow> nat list \<times> string" where
  "take_digits [] = ([], [])"
| "take_digits (c # cs) =
     (case digit_val c of
        None \<Rightarrow> ([], c # cs)
      | Some v \<Rightarrow>
          (case cs of
             u # d # ds \<Rightarrow>
               if u = CHR ''_'' \<and> digit_val d \<noteq> None
               then (case take_digits (d # ds) of (vs, r) \<Rightarrow> (v # vs, r))
               else (case take_digits cs of (vs, r) \<Rightarrow> (v # vs, r))
           | _ \<Rightarrow> (case take_digits cs of (vs, r) \<Rightarrow> (v # vs, r))))"

definition digits_value :: "nat list \<Rightarrow> nat" where
  "digits_value ds = foldl (\<lambda>acc d. acc * 10 + d) 0 ds"

definition py_nat :: "string \<Rightarrow> nat option" where
  "py_nat s = (case take_digits s of (ds, r) \<Rightarrow>
                 if ds \<noteq> [] \<and> r = [] then Some (digits_value ds) else None)"

definition py_int :: "string \<Rightarrow> int option" where
  "py_int s =
     (case strip s of
        [] \<Rightarrow> None
      | c # cs \<Rightarrow>
          if c = CHR ''-'' then map_option (\<lambda>n. - int n) (py_nat cs)
          else if c = CHR ''+'' then map_option int (py_nat cs)
          else map_option int (py_nat (c # cs)))"

text \<open>
  \<^verbatim>\<open>float\<close> of a string: white space stripped, an optional sign, then \<^verbatim>\<open>inf\<close>,
  \<^verbatim>\<open>infinity\<close> or \<^verbatim>\<open>nan\<close> in any case, or a decimal numeral with an optional fraction
  and an optional exponent. The value of a numeral is the exact real it denotes.
\<close>

definition lower_ascii :: "char \<Rightarrow> char" where
  "lower_ascii c =
     (let n = (of_char c :: nat) in if 65 \<le> n \<and> n \<le> 90 then char_of (n + 32) else c)"

definition scale10 :: "real \<Rightarrow> int \<Rightarrow> real" where
  "scale10 x e = (if 0 \<le> e then x * 10 ^ nat e else x / 10 ^ nat (- e))"

definition py_exponent :: "string \<Rightarrow> int option" where
  "py_exponent s =
     (case s of
        [] \<Rightarrow> Some 0
      | c # cs \<Rightarrow>
          if lower_ascii c = CHR ''e'' then
            (case cs of
               [] \<Rightarrow> None
             | d # ds \<Rightarrow>
                 if d = CHR ''-'' then map_option (\<lambda>n. - int n) (py_nat ds)
                 else if d = CHR ''+'' then map_option int (py_nat ds)
                 else map_option int (py_nat (d # ds)))
          else None)"

definition py_decimal :: "string \<Rightarrow> real option" where
  "py_decimal s =
     (case take_digits s of (ip, r1) \<Rightarrow>
        (case (case r1 of
                 c # cs \<Rightarrow> if c = CHR ''.'' then take_digits cs else ([], r1)
               | [] \<Rightarrow> ([], r1)) of (fp, r2) \<Rightarrow>
           if ip = [] \<and> fp = [] then None
           else (case py_exponent r2 of
                   None \<Rightarrow> None
                 | Some e \<Rightarrow>
                     Some (scale10 (real (digits_value (ip @ fp)) / 10 ^ length fp) e))))"

definition py_unsigned_float :: "string \<Rightarrow> pyfloat option" where
  "py_unsigned_float s =
     (let l = map lower_ascii s in
      if l = ''inf'' \<or> l = ''infinity'' then Some PInf
      else if l = ''nan'' then Some NaN
      else map_option Fin (py_decimal s))"

definition py_float :: "string \<Rightarrow> pyfloat option" where
  "py_float s =
     (case strip s of
        [] \<Rightarrow> None
      | c # cs \<Rightarrow>
          if c = CHR ''-'' then map_option fl_neg (py_unsigned_float cs)
          else if c = CHR ''+'' then py_unsigned_float cs
          else py_unsigned_float (c # cs))"

text \<open>
  \<^verbatim>\<open>str\<close> of a float. Python prints the shortest decimal that reads back as the same
  binary64 value. For the exact reals of this model that is the decimal expansion itself, with
  at least one and at most seventeen fractional digits. Python's exponent notation, used
  below \<^verbatim>\<open>1e-4\<close> and from \<^verbatim>\<open>1e16\<close> on, is not rendered.
\<close>

fun frac_digits :: "nat \<Rightarrow> real \<Rightarrow> string" where
  "frac_digits 0 f = []"
| "frac_digits (Suc k) f =
     (let d = nat \<lfloor>f * 10\<rfloor>; r = f * 10 - real d in
      digit_char d # (if r = 0 then [] else frac_digits k r))"

definition str_float :: "pyfloat \<Rightarrow> string" where
  "str_float x =
     (case x of
        NaN \<Rightarrow> ''nan''
      | PInf \<Rightarrow> ''inf''
      | NInf \<Rightarrow> ''-inf''
      | Fin a \<Rightarrow>
          (let m = \<bar>a\<bar>; ip = nat \<lfloor>m\<rfloor> in
           (if a < 0 then ''-'' else []) @ str_nat ip @ ''.'' @ frac_digits 17 (m - real ip)))"

subsection \<open>The controller command\<close>

text \<open>
  \<^verbatim>\<open>init_rld_controller\<close> formats one f-string and writes its bytes to the serial
  connection. The literal spans two source lines joined by a backslash: the line break is
  dropped, the eight blanks that indent the second line are part of the literal.
\<close>

definition init_rld_controller :: "ImagingParameters \<Rightarrow> string" where
  "init_rld_controller params =
     ''R,'' @ str_int (exposure_time_us params) @ '','' @
     str_float (fl_add (fl_sub (delay_window1_us params) (Fin 0.75)) (pulse_width_us params)) @ '','' @
     str_float (fl_add (fl_sub (delay_window2_us params) (Fin 0.75)) (pulse_width_us params)) @ '','' @
     str_int (exposures_per_frame params) @ '','' @
     ''        '' @ str_int (light_intensity params) @ '','' @
     str_float (pulse_width_us params) @ '','' @
     str_int (end_delay_us params) @ '','' @
     str_int (sets_to_acquire params) @ [CHR 0x0A]"

text \<open>The fields of a command: the text between commas, without the final line feed.\<close>

fun split_on :: "char \<Rightarrow> string \<Rightarrow> string list" where
  "split_on c [] = [[]]"
| "split_on c (x # xs) =
     (if x = c then [] # split_on c xs
      else (case split_on c xs of [] \<Rightarrow> [[x]] | f # fs \<Rightarrow> (x # f) # fs))"

definition command_fields :: "string \<Rightarrow> string list" where
  "command_fields s = split_on CHR '','' (butlast s)"

subsection \<open>Settings files\<close>

text \<open>
  A settings file as \<^verbatim>\<open>ConfigParser.read\<close> leaves it: the \<^verbatim>\<open>DEFAULT\<close> section and the
  named sections, each a map from (lower-case) keys to values after interpolation. A file
  is absent, or is rejected by the parser (which raises), or is read.
\<close>

record config =
  defaults :: "string \<rightharpoonup> string"
  sections :: "string \<rightharpoonup> (string \<rightharpoonup> string)"

datatype settings_file = Missing | Malformed | Parsed config

definition has_section :: "config \<Rightarrow> string \<Rightarrow> bool" where
  "has_section c s = (sections c s \<noteq> None)"

definition cfg_get :: "config \<Rightarrow> string \<Rightarrow> string \<Rightarrow> string option" where
  "cfg_get c s k =
     (case sections c s of
        None \<Rightarrow> None
      | Some m \<Rightarrow> (case m k of Some v \<Rightarrow> Some v | None \<Rightarrow> defaults c k))"

text \<open>
  \<^verbatim>\<open>getint\<close> and \<^verbatim>\<open>getfloat\<close> with a fallback: the fallback when the section or the key
  is absent, the converted value otherwise; a value that does not convert raises
  \<^verbatim>\<open>ValueError\<close>.
\<close>

definition getint :: "config \<Rightarrow> string \<Rightarrow> string \<Rightarrow> int \<Rightarrow> error + int" where
  "getint c s k fallback =
     (case cfg_get c s k of
        None \<Rightarrow> Inr fallback
      | Some v \<Rightarrow> (case py_int v of None \<Rightarrow> Inl ValueError | Some i \<Rightarrow> Inr i))"

definition getfloat :: "config \<Rightarrow> string \<Rightarrow> string \<Rightarrow> int \<Rightarrow> error + pyfloat" where
  "getfloat c s k fallback =
     (case cfg_get c s k of
        None \<Rightarrow> Inr (Fin (of_int fallback))
      | Some v \<Rightarrow> (case py_float v of None \<Rightarrow> Inl ValueError | Some x \<Rightarrow> Inr x))"

text \<open>\<^verbatim>\<open>any(value == -1 for value in vars(params).values())\<close>\<close>

definition any_minus_one :: "ImagingParameters \<Rightarrow> bool" where
  "any_minus_one p =
     (sets_to_acquire p = - 1 \<or> exposure_time_us p = - 1 \<or> delay_window1_us p = Fin (- 1) \<or>
      delay_window2_us p = Fin (- 1) \<or> pulse_width_us p = Fin (- 1) \<or>
      exposures_per_frame p = - 1 \<or> end_delay_us p = - 1 \<or> light_intensity p = - 1)"

text \<open>The assignments inside the two \<^verbatim>\<open>try\<close> blocks, in source order.\<close>

definition read_current :: "config \<Rightarrow> ImagingParameters \<Rightarrow> error + ImagingParameters" where
  "read_current settings params =
     ebind (getint settings ''ImagingParameters'' ''exposure_time_us'' (- 1)) (\<lambda>v1.
     ebind (getfloat settings ''ImagingParameters'' ''delay_window1_us'' (- 1)) (\<lambda>v2.
     ebind (getfloat settings ''ImagingParameters'' ''delay_window2_us'' (- 1)) (\<lambda>v3.
     ebind (getint settings ''ImagingParameters'' ''end_delay_us'' (- 1)) (\<lambda>v4.
     ebind (getfloat settings ''ImagingParameters'' ''pulse_width_us'' (- 1)) (\<lambda>v5.
     ebind (getint settings ''ImagingParameters'' ''light_intensity'' (- 1)) (\<lambda>v6.
     ebind (getint settings ''ImagingParameters'' ''sets_to_acquire'' (- 1)) (\<lambda>v7.
     ebind (getint settings ''ImagingParameters'' ''exposures_per_frame'' (- 1)) (\<lambda>v8.
     Inr (params\<lparr> exposure_time_us := v1, delay_window1_us := v2, delay_window2_us := v3,
                  end_delay_us := v4, pulse_width_us := v5, light_intensity := v6,
                  sets_to_acquire := v7, exposures_per_frame := v8 \<rparr>)))))))))"

text \<open>
  The legacy block reads every field with \<^verbatim>\<open>getint\<close>, also the two it stores in float
  fields, and does not read \<^verbatim>\<open>delay_window1_us\<close> (the line is commented out).
\<close>

definition read_legacy :: "config \<Rightarrow> ImagingParameters \<Rightarrow> error + ImagingParameters" where
  "read_legacy settings params =
     ebind (getint settings ''Settings'' ''exposure_us'' (- 1)) (\<lambda>v1.
     ebind (getint settings ''Settings'' ''delay_window2_us'' (- 1)) (\<lambda>v3.
     ebind (getint settings ''Settings'' ''end_delay_us'' (- 1)) (\<lambda>v4.
     ebind (getint settings ''Settings'' ''light_pulse_width_us'' (- 1)) (\<lambda>v5.
     ebind (getint settings ''Settings'' ''light_intensity'' (- 1)) (\<lambda>v6.
     ebind (getint settings ''Settings'' ''sets_to_acquire'' (- 1)) (\<lambda>v7.
     ebind (getint settings ''Settings'' ''exposures_per_frame'' (- 1)) (\<lambda>v8.
     Inr (params\<lparr> exposure_time_us := v1, delay_window2_us := Fin (of_int v3),
                  end_delay_us := v4, pulse_width_us := Fin (of_int v5), light_intensity := v6,
                  sets_to_acquire := v7, exposures_per_frame := v8 \<rparr>))))))))"

text \<open>
  After a \<^verbatim>\<open>try\<close> block: \<^verbatim>\<open>ValueError\<close> is caught and gives \<open>-2\<close>; a field equal to \<open>-1\<close>
  gives \<open>-1\<close>; otherwise the new parameters replace \<^verbatim>\<open>self.params\<close> and the result is \<open>0\<close>.
  The result pairs the returned value with \<^verbatim>\<open>self.params\<close> after the call.
\<close>

definition finish_load ::
  "ImagingParameters \<Rightarrow> error + ImagingParameters \<Rightarrow> error + (int option \<times> ImagingParameters)" where
  "finish_load self_params r =
     (case r of
        Inl ValueError \<Rightarrow> Inr (Some (- 2), self_params)
      | Inl e \<Rightarrow> Inl e
      | Inr params \<Rightarrow>
          if any_minus_one params then Inr (Some (- 1), self_params)
          else Inr (Some 0, params))"

definition load_settings_from_file ::
  "ImagingParameters \<Rightarrow> settings_file \<Rightarrow> error + (int option \<times> ImagingParameters)" where
  "load_settings_from_file self_params file =
     (case file of
        Missing \<Rightarrow> Inr (None, self_params)
      | Malformed \<Rightarrow> Inl ParsingError
      | Parsed settings \<Rightarrow>
          if has_section settings ''ImagingParameters''
          then finish_load self_params (read_current settings default_params)
          else if has_section settings ''Settings''
          then finish_load self_params (read_legacy settings default_params)
          else Inr (None, self_params))"

text \<open>
  \<^verbatim>\<open>save_settings\<close> writes one section with the eight fields as text. The file it writes
  is taken to read back as the configuration it was written from.
\<close>

definition save_settings :: "ImagingParameters \<Rightarrow> settings_file" where
  "save_settings params =
     Parsed \<lparr> defaults = Map.empty,
              sections = [''ImagingParameters'' \<mapsto> map_of
                [(''exposure_time_us'', str_int (exposure_time_us params)),
                 (''delay_window1_us'', str_float (delay_window1_us params)),
                 (''delay_window2_us'', str_float (delay_window2_us params)),
                 (''end_delay_us'', str_int (end_delay_us params)),
                 (''pulse_width_us'', str_float (pulse_width_us params)),
                 (''light_intensity'', str_int (light_intensity params)),
                 (''sets_to_acquire'', str_int (sets_to_acquire params)),
                 (''exposures_per_frame'', str_int (exposures_per_frame params))]] \<rparr>"



definition legacy_keys :: "string list" where
  "legacy_keys =
     [''exposure_us'', ''delay_window2_us'', ''end_delay_us'', ''light_pulse_width_us'',
      ''light_intensity'', ''sets_to_acquire'', ''exposures_per_frame'']"





text \<open>A legacy file is complete when its seven keys hold integers other than \<open>-1\<close>.\<close>

definition legacy_complete :: "config \<Rightarrow> bool" where
  "legacy_complete c =
     list_all (\<lambda>k. case cfg_get c ''Settings'' k of
                      None \<Rightarrow> False
                    | Some v \<Rightarrow> (case py_int v of None \<Rightarrow> False | Some i \<Rightarrow> i \<noteq> - 1))
       legacy_keys"

text \<open>A float field is representable when the text written for it reads back as itself.\<close>

definition representable :: "pyfloat \<Rightarrow> bool" where
  "representable x = (py_float (str_float x) = Some x)"

subsection \<open>Snapping to the timing resolution\<close>

text \<open>Python's \<^verbatim>\<open>%\<close> on floats: the remainder has the sign of the divisor.\<close>

definition py_mod :: "real \<Rightarrow> real \<Rightarrow> real" where
  "py_mod a b = a - b * of_int \<lfloor>a / b\<rfloor>"

text \<open>
  The three handlers read a spin box and, when the value is off the grid, set it to
  \<open>new_value\<close>. Each maps the value of its spin box before the call to the value it leaves.
\<close>

definition validate_delay1_sb :: "real \<Rightarrow> real" where
  "validate_delay1_sb v =
     (let difference = py_mod v 0.0625 in
      if difference > 0 then
        (if difference > 0.03125 then v + (0.0625 - difference) else v - difference)
      else v)"

definition validate_delay2_sb :: "real \<Rightarrow> real" where
  "validate_delay2_sb v =
     (let difference = py_mod v 0.0625 in
      if difference > 0 then
        (if difference > 0.03125 then v + (0.0625 - difference) else v - difference)
      else v)"

definition validate_pulse_width_sb :: "real \<Rightarrow> real" where
  "validate_pulse_width_sb v =
     (let difference = py_mod v 0.0625 in
      if difference > 0 then
        (if difference > 0.03125 then v + (0.0625 - difference) else v - difference)
      else v)"

subsection \<open>Acquisition\<close>

text \<open>
  The camera is the list of frames it will deliver, each with its hardware time stamp;
  \<^verbatim>\<open>get_image\<close> takes the next one and raises when none arrives. The object keeps the image
  lists and the time stamp lists per window, and the bytes written to the controller.
\<close>

fun dict_get :: "'a window_dict \<Rightarrow> window \<Rightarrow> 'a list" where
  "dict_get d Window1 = window1 d"
| "dict_get d Window2 = window2 d"
| "dict_get d Dark = dark d"

fun dict_append :: "window \<Rightarrow> 'a \<Rightarrow> 'a window_dict \<Rightarrow> 'a window_dict" where
  "dict_append Window1 x d = d\<lparr> window1 := window1 d @ [x] \<rparr>"
| "dict_append Window2 x d = d\<lparr> window2 := window2 d @ [x] \<rparr>"
| "dict_append Dark x d = d\<lparr> dark := dark d @ [x] \<rparr>"

record rld =
  camera :: "(int \<times> frame) list"
  serial_out :: "string list"
  image_dict :: image_dict
  image_start_time_dict :: "int window_dict"

text \<open>\<^verbatim>\<open>RLD.__init__\<close>: both dictionaries start with three empty lists.\<close>

definition rld_init :: "(int \<times> frame) list \<Rightarrow> rld" where
  "rld_init cam = \<lparr> camera = cam, serial_out = [], image_dict = empty_dict,
                    image_start_time_dict = empty_dict \<rparr>"

text \<open>The body of the inner \<^verbatim>\<open>for\<close> loop, for one key.\<close>

definition pull_frame :: "window \<Rightarrow> rld \<Rightarrow> error + rld" where
  "pull_frame key s =
     (case camera s of
        [] \<Rightarrow> Inl XiError
      | (ts, data_raw) # rest \<Rightarrow>
          Inr (s\<lparr> camera := rest,
                  image_start_time_dict := dict_append key ts (image_start_time_dict s),
                  image_dict := dict_append key data_raw (image_dict s) \<rparr>))"

text \<open>The inner loop visits the keys in the order of the dictionary literal.\<close>

fun pull_set :: "window list \<Rightarrow> rld \<Rightarrow> error + rld" where
  "pull_set [] s = Inr s"
| "pull_set (key # keys) s =
     (case pull_frame key s of Inl e \<Rightarrow> Inl e | Inr s' \<Rightarrow> pull_set keys s')"

function acquire_loop :: "int \<Rightarrow> int \<Rightarrow> rld \<Rightarrow> error + rld" where
  "acquire_loop sets current_set s =
     (if current_set < sets then
        (case pull_set [Window1, Window2, Dark] s of
           Inl e \<Rightarrow> Inl e
         | Inr s' \<Rightarrow> acquire_loop sets (current_set + 1) s')
      else Inr s)"
  by pat_completeness auto
termination
  by (relation "measure (\<lambda>(sets, current_set, s). nat (sets - current_set))") auto

declare acquire_loop.simps [simp del]

text \<open>
  \<^verbatim>\<open>acquire_images\<close>: the start command, the image dictionary replaced by a fresh one, the
  loop. The time stamp dictionary is not assigned here.
\<close>

definition acquire_images :: "ImagingParameters \<Rightarrow> rld \<Rightarrow> error + rld" where
  "acquire_images params s =
     acquire_loop (sets_to_acquire params) 0
       (s\<lparr> serial_out := serial_out s @ [''A'' @ [CHR 0x0A]], image_dict := empty_dict \<rparr>)"

subsection \<open>Example inputs\<close>

text \<open>A camera that delivers six one-pixel frames, and a run of one set.\<close>

definition six_frames :: "(int \<times> frame) list" where
  "six_frames = [(1, [10]), (2, [20]), (3, [30]), (4, [40]), (5, [50]), (6, [60])]"

definition one_set :: ImagingParameters where
  "one_set = default_params\<lparr> sets_to_acquire := 1 \<rparr>"

text \<open>
  Three settings files: one of the current schema without \<^verbatim>\<open>exposures_per_frame\<close>, one
  whose \<^verbatim>\<open>exposure_time_us\<close> is not a number, and a legacy file that also carries a
  \<^verbatim>\<open>delay_window1_us\<close> line.
\<close>

definition incomplete_cfg :: config where
  "incomplete_cfg =
     \<lparr> defaults = Map.empty,
       sections = [''ImagingParameters'' \<mapsto> map_of
         [(''exposure_time_us'', ''20''), (''delay_window1_us'', ''2.5''),
          (''delay_window2_us'', ''22.5''), (''end_delay_us'', ''33''),
          (''pulse_width_us'', ''40.0''), (''light_intensity'', ''100''),
          (''sets_to_acquire'', ''3'')]] \<rparr>"


definition legacy_cfg :: config where
  "legacy_cfg =
     \<lparr> defaults = Map.empty,
       sections = [''Settings'' \<mapsto> map_of
         [(''exposure_us'', ''20''), (''delay_window1_us'', ''7''),
          (''delay_window2_us'', ''22''), (''end_delay_us'', ''33''),
          (''light_pulse_width_us'', ''40''), (''light_intensity'', ''100''),
          (''sets_to_acquire'', ''3''), (''exposures_per_frame'', ''10'')]] \<rparr>"

section \<open>Properties\<close>

subsection \<open>Lifetime computation\<close>

lemma fl_mul_one [simp]: "fl_mul x (Fin 1) = x"
  by (cases x) (simp_all add: fl_inf_def)

lemma ebind_Inr [simp]: "ebind (Inr x) f = f x"
  by (simp add: ebind_def)

lemma ebind_Inl [simp]: "ebind (Inl e) f = Inl e"
  by (simp add: ebind_def)

lemma arr_replace_zeroes_Arr:
  "arr_replace_zeroes_by_nan (Arr xs) = Inr (Arr (map px_zero_nan xs))"
  by (simp add: arr_replace_zeroes_by_nan_def px_zero_nan_def)

lemma arr_replace_negatives_Arr:
  "arr_replace_negatives_by_nan (Arr xs) = Inr (Arr (map px_neg_nan xs))"
  by (simp add: arr_replace_negatives_by_nan_def px_neg_nan_def)

lemma arr_replace_zeroes_Scalar: "arr_replace_zeroes_by_nan (Scalar a) = Inl TypeError"
  by (simp add: arr_replace_zeroes_by_nan_def)

lemma calculate_lifetime_Arr:
  assumes "length w1 = length w2"
  shows "calculate_lifetime delta_t (Arr w1) (Arr w2) =
           Inr (Arr (map2 (pixel_lifetime delta_t) w1 w2))"
proof -
  have "map (\<lambda>x. fl_div delta_t x)
          (map px_neg_nan (map px_zero_nan (map fl_log
             (map2 fl_div (map px_zero_nan w1) (map px_zero_nan w2))))) =
        map2 (pixel_lifetime delta_t) w1 w2"
    by (simp add: zip_map_map pixel_lifetime_def split_def)
  with assms show ?thesis
    by (simp add: calculate_lifetime_def arr_replace_zeroes_Arr arr_replace_negatives_Arr)
qed

lemma pixel_lifetime_degenerate:
  assumes "fl_is_zero y \<or> fl_is_zero (fl_div x y) \<or>
           fl_is_zero (fl_log (fl_div x y)) \<or> fl_is_neg (fl_log (fl_div x y))"
  shows "pixel_lifetime delta_t x y = NaN"
  using assms
  by (cases x; cases y; cases delta_t)
     (auto simp: pixel_lifetime_def px_zero_nan_def px_neg_nan_def fl_inf_def split: if_splits)

lemma pixel_lifetime_decay:
  assumes "0 < b" "b < a" "0 < dt"
  shows "pixel_lifetime (Fin dt) (Fin a) (Fin b) = Fin (dt / ln (a / b)) \<and> 0 < dt / ln (a / b)"
proof -
  from assms have "1 < a / b" by simp
  then have l: "0 < ln (a / b)" by simp
  with assms show ?thesis
    by (simp add: pixel_lifetime_def px_zero_nan_def px_neg_nan_def)
qed

lemma np_average_single:
  "np_average [[p]] = Inr (Arr [Fin (real (unat p))])"
  by (simp add: np_average_def)

text \<open>
  Claim C2. Let \<open>w1\<close> and \<open>w2\<close> be arrays of one size and \<open>i\<close> a pixel at which the second
  window is zero, or the quotient of the windows is zero, or the logarithm of the quotient is
  zero or negative. Then \<open>calculate_lifetime\<close> returns an array (it does not raise), the
  array has the size of the input, its pixel \<open>i\<close> is NaN (so neither an infinity nor a
  negative number), and every pixel \<open>j\<close> holds what the computation on pixel \<open>j\<close> alone gives.
\<close>

theorem calculate_lifetime_degenerate_pixel:
  assumes "length w1 = length w2" and "i < length w2"
    and "fl_is_zero (w2 ! i) \<or> fl_is_zero (fl_div (w1 ! i) (w2 ! i)) \<or>
         fl_is_zero (fl_log (fl_div (w1 ! i) (w2 ! i))) \<or>
         fl_is_neg (fl_log (fl_div (w1 ! i) (w2 ! i)))"
  shows "\<exists>out. calculate_lifetime delta_t (Arr w1) (Arr w2) = Inr (Arr out) \<and>
               length out = length w2 \<and> out ! i = NaN \<and>
               (\<forall>j<length w2. calculate_lifetime delta_t (Arr [w1 ! j]) (Arr [w2 ! j]) =
                                 Inr (Arr [out ! j]))"
proof -
  let ?out = "map2 (pixel_lifetime delta_t) w1 w2"
  have res: "calculate_lifetime delta_t (Arr w1) (Arr w2) = Inr (Arr ?out)"
    using assms(1) by (rule calculate_lifetime_Arr)
  have len: "length ?out = length w2"
    using assms(1) by simp
  have px: "?out ! j = pixel_lifetime delta_t (w1 ! j) (w2 ! j)" if "j < length w2" for j
    using that assms(1) by simp
  have nan: "?out ! i = NaN"
    using px [OF assms(2)] pixel_lifetime_degenerate [OF assms(3)] by simp
  have single: "calculate_lifetime delta_t (Arr [w1 ! j]) (Arr [w2 ! j]) = Inr (Arr [?out ! j])"
    if "j < length w2" for j
    using px [OF that] by (simp add: calculate_lifetime_Arr)
  from res len nan single show ?thesis by blast
qed

text \<open>Witness for C2: two pixels, the first with a zero in the second window.\<close>

theorem calculate_lifetime_degenerate_pixel_witness:
  "length [Fin 50, Fin 4] = length [Fin 0, Fin 2] \<and> (0::nat) < length [Fin 0, Fin 2] \<and>
   fl_is_zero ([Fin 0, Fin 2] ! 0) \<and>
   (\<exists>out. calculate_lifetime (Fin 20) (Arr [Fin 50, Fin 4]) (Arr [Fin 0, Fin 2]) = Inr (Arr out) \<and>
          length out = 2 \<and> out ! 0 = NaN)"
  using calculate_lifetime_degenerate_pixel [of "[Fin 50, Fin 4]" "[Fin 0, Fin 2]" 0 "Fin 20"]
  by auto

text \<open>
  Claim C1, as amended. With \<open>delay_window1_us < delay_window2_us\<close>, both finite, and
  dark-subtracted averages \<open>w1\<close>, \<open>w2\<close> of one size, \<open>calculate_average_lifetime\<close> returns
  an array whose pixel \<open>i\<close> is finite and positive wherever \<open>0 < w2 ! i < w1 ! i\<close>: the
  intensity has to fall from the first window to the second.
\<close>

theorem calculate_average_lifetime_decay_positive:
  assumes "delay_window1_us params = Fin d1" and "delay_window2_us params = Fin d2"
    and "d1 < d2"
    and "np_average (dark imgs) = Inr dark_avg"
    and "dark_subtracted (window1 imgs) dark_avg = Inr (Arr w1)"
    and "dark_subtracted (window2 imgs) dark_avg = Inr (Arr w2)"
    and "length w1 = length w2" and "i < length w2"
    and "w1 ! i = Fin a" and "w2 ! i = Fin b" and "0 < b" and "b < a"
  shows "\<exists>out t. calculate_average_lifetime params imgs = Inr (Arr out) \<and>
                 length out = length w2 \<and> out ! i = Fin t \<and> 0 < t"
proof -
  let ?dt = "d2 - d1"
  let ?out = "map2 (pixel_lifetime (Fin ?dt)) w1 w2"
  have "calculate_average_lifetime params imgs = calculate_lifetime (Fin ?dt) (Arr w1) (Arr w2)"
    using assms(1,2,4,5,6) by (simp add: calculate_average_lifetime_def fl_sub_def)
  then have res: "calculate_average_lifetime params imgs = Inr (Arr ?out)"
    using assms(7) by (simp add: calculate_lifetime_Arr)
  have len: "length ?out = length w2"
    using assms(7) by simp
  have "?out ! i = pixel_lifetime (Fin ?dt) (Fin a) (Fin b)"
    using assms(7,8,9,10) by simp
  moreover have "0 < ?dt" using assms(3) by simp
  ultimately have "?out ! i = Fin (?dt / ln (a / b)) \<and> 0 < ?dt / ln (a / b)"
    using pixel_lifetime_decay [OF assms(11,12)] by simp
  with res len show ?thesis by blast
qed

text \<open>Witness for C1: one pixel, averages 4 and 2 after a dark level of 1.\<close>

theorem calculate_average_lifetime_decay_positive_witness:
  "delay_window1_us default_params = Fin 2.5 \<and> delay_window2_us default_params = Fin 22.5 \<and>
   (2.5::real) < 22.5 \<and>
   np_average [[1]] = Inr (Arr [Fin 1]) \<and>
   dark_subtracted [[5]] (Arr [Fin 1]) = Inr (Arr [Fin 4]) \<and>
   dark_subtracted [[3]] (Arr [Fin 1]) = Inr (Arr [Fin 2]) \<and>
   (\<exists>out t. calculate_average_lifetime default_params
               \<lparr> window1 = [[5]], window2 = [[3]], dark = [[1]] \<rparr> = Inr (Arr out) \<and>
            length out = 1 \<and> out ! 0 = Fin t \<and> 0 < t)"
proof -
  have d: "np_average [[1]] = Inr (Arr [Fin 1])"
    by (simp add: np_average_single)
  have a: "dark_subtracted [[5]] (Arr [Fin 1]) = Inr (Arr [Fin 4])"
    by (simp add: dark_subtracted_def np_average_single fl_sub_def)
  have b: "dark_subtracted [[3]] (Arr [Fin 1]) = Inr (Arr [Fin 2])"
    by (simp add: dark_subtracted_def np_average_single fl_sub_def)
  show ?thesis
    using calculate_average_lifetime_decay_positive
      [of default_params "2.5" "22.5" "\<lparr> window1 = [[5]], window2 = [[3]], dark = [[1]] \<rparr>"
          "Arr [Fin 1]" "[Fin 4]" "[Fin 2]" 0 4 2] d a b
    by (simp add: default_params_def)
qed

text \<open>
  Counterexample to C1 as stated: default delays, one pixel with dark-subtracted averages
  \<open>2 < 4\<close>, so \<open>0 < window1 < window2\<close>; the logarithm of \<open>1/2\<close> is negative and the
  pixel is NaN.
\<close>

theorem calculate_average_lifetime_ascending_counterexample:
  "delay_window1_us default_params = Fin 2.5 \<and> delay_window2_us default_params = Fin 22.5 \<and>
   np_average [[1]] = Inr (Arr [Fin 1]) \<and>
   dark_subtracted [[3]] (Arr [Fin 1]) = Inr (Arr [Fin 2]) \<and>
   dark_subtracted [[5]] (Arr [Fin 1]) = Inr (Arr [Fin 4]) \<and>
   calculate_average_lifetime default_params
     \<lparr> window1 = [[3]], window2 = [[5]], dark = [[1]] \<rparr> = Inr (Arr [NaN])"
  by (simp add: calculate_average_lifetime_def calculate_lifetime_Arr dark_subtracted_def
      np_average_single fl_sub_def default_params_def pixel_lifetime_def px_zero_nan_def
      px_neg_nan_def)

text \<open>
  Claim C4, as amended. On a stack whose three windows are all empty,
  \<open>calculate_average_lifetime\<close> produces no map: each mean is the scalar NaN, and the first
  zero replacement raises \<^verbatim>\<open>TypeError\<close> before any division or logarithm is evaluated.
\<close>

theorem calculate_average_lifetime_empty:
  "calculate_average_lifetime params \<lparr> window1 = [], window2 = [], dark = [] \<rparr> = Inl TypeError"
  by (simp add: calculate_average_lifetime_def calculate_lifetime_def dark_subtracted_def
      np_average_def arr_replace_zeroes_Scalar)

text \<open>Counterexample to C4 as stated: the outcome on the empty stack is not \<open>EmptyStack\<close>.\<close>

theorem calculate_average_lifetime_empty_counterexample:
  "calculate_average_lifetime default_params \<lparr> window1 = [], window2 = [], dark = [] \<rparr>
     \<noteq> Inl EmptyStack"
  by (simp add: calculate_average_lifetime_def calculate_lifetime_def dark_subtracted_def
      np_average_def arr_replace_zeroes_Scalar)

subsection \<open>The controller command\<close>

lemma frac_digits_numeral:
  "frac_digits (numeral v) f =
     (let d = nat \<lfloor>f * 10\<rfloor>; r = f * 10 - real d in
      digit_char d # (if r = 0 then [] else frac_digits (pred_numeral v) r))"
  by (simp add: numeral_eq_Suc)

lemmas text_eval = str_float_def str_int_def str_nat.simps digit_char_def frac_digits_numeral
  Let_def

lemma init_rld_controller_default:
  "init_rld_controller default_params = ''R,20,41.75,61.75,10,        100,40.0,33,3'' @ [CHR 0x0A]"
  by (simp add: init_rld_controller_def default_params_def fl_sub_def text_eval)

text \<open>
  Claim C3, at the parameters of its own scenario. The command written for the default
  parameters has the two delay fields \<open>41.75\<close> and \<open>61.75\<close>, but its sixth field is the
  light intensity preceded by eight blanks, not the light intensity itself.
\<close>

theorem init_rld_controller_default_command:
  "init_rld_controller default_params =
     ''R,20,41.75,61.75,10,        100,40.0,33,3'' @ [CHR 0x0A] \<and>
   command_fields (init_rld_controller default_params) =
     [''R'', ''20'', ''41.75'', ''61.75'', ''10'', ''        100'', ''40.0'', ''33'', ''3''] \<and>
   command_fields (init_rld_controller default_params) ! 5 \<noteq>
     str_int (light_intensity default_params)"
proof -
  have f: "command_fields (''R,20,41.75,61.75,10,        100,40.0,33,3'' @ [CHR 0x0A]) =
     [''R'', ''20'', ''41.75'', ''61.75'', ''10'', ''        100'', ''40.0'', ''33'', ''3'']"
    by (simp add: command_fields_def)
  have i: "str_int (light_intensity default_params) = ''100''"
    by (simp add: default_params_def text_eval)
  show ?thesis
    unfolding init_rld_controller_default f i by simp
qed

subsection \<open>Snapping to the timing resolution\<close>

lemma py_mod_range:
  assumes "0 < b"
  shows "0 \<le> py_mod a b \<and> py_mod a b < b"
  using floor_divide_lower [OF assms, of a] floor_divide_upper [OF assms, of a]
  by (simp add: py_mod_def algebra_simps)

lemma snap_grid:
  fixes v :: real
  defines "d \<equiv> py_mod v 0.0625"
  defines "w \<equiv> (if d > 0 then (if d > 0.03125 then v + (0.0625 - d) else v - d) else v)"
  shows "(\<exists>k::int. w = 0.0625 * of_int k) \<and> \<bar>w - v\<bar> \<le> 0.03125"
proof -
  let ?q = "\<lfloor>v / 0.0625\<rfloor>"
  have r: "0 \<le> d \<and> d < 0.0625"
    unfolding d_def by (rule py_mod_range) simp
  have v: "v = 0.0625 * of_int ?q + d"
    by (simp add: d_def py_mod_def)
  show ?thesis
  proof (cases "d > 0.03125")
    case True
    then have "w = 0.0625 * of_int (?q + 1)"
      using v by (simp add: w_def)
    moreover have "\<bar>w - v\<bar> \<le> 0.03125"
      using True r by (simp add: w_def)
    ultimately show ?thesis by blast
  next
    case False
    then have "w = 0.0625 * of_int ?q"
      using v r by (auto simp: w_def)
    moreover have "\<bar>w - v\<bar> \<le> 0.03125"
      using False r by (simp add: w_def)
    ultimately show ?thesis by blast
  qed
qed

lemma snap_half:
  fixes m :: int
  defines "v \<equiv> 0.0625 * of_int m + (0.03125::real)"
  defines "d \<equiv> py_mod v 0.0625"
  shows "(if d > 0 then (if d > 0.03125 then v + (0.0625 - d) else v - d) else v)
           = 0.0625 * of_int m"
proof -
  have "v / 0.0625 = of_int m + 1 / 2"
    by (simp add: v_def)
  then have "\<lfloor>v / 0.0625\<rfloor> = m"
    by (simp add: floor_unique)
  then have "d = 0.03125"
    by (simp add: d_def py_mod_def v_def)
  then show ?thesis
    by (simp add: v_def)
qed

text \<open>
  Claim C7, as amended. Each of the three handlers leaves a multiple of \<open>0.0625\<close> that is
  at most \<open>0.03125\<close> away from the value it found, so a nearest multiple; a value exactly
  halfway between two multiples goes to the smaller one.
\<close>

theorem validate_sb_nearest_ties_down:
  "(\<exists>k::int. validate_delay1_sb v = 0.0625 * of_int k) \<and>
   \<bar>validate_delay1_sb v - v\<bar> \<le> 0.03125 \<and>
   (\<exists>k::int. validate_delay2_sb v = 0.0625 * of_int k) \<and>
   \<bar>validate_delay2_sb v - v\<bar> \<le> 0.03125 \<and>
   (\<exists>k::int. validate_pulse_width_sb v = 0.0625 * of_int k) \<and>
   \<bar>validate_pulse_width_sb v - v\<bar> \<le> 0.03125 \<and>
   validate_delay1_sb (0.0625 * of_int m + 0.03125) = 0.0625 * of_int m \<and>
   validate_delay2_sb (0.0625 * of_int m + 0.03125) = 0.0625 * of_int m \<and>
   validate_pulse_width_sb (0.0625 * of_int m + 0.03125) = 0.0625 * of_int m"
  using snap_grid [of v] snap_half [of m]
  unfolding validate_delay1_sb_def validate_delay2_sb_def validate_pulse_width_sb_def Let_def
  by simp

text \<open>
  Counterexample to C7 as stated: \<open>0.03125\<close> lies halfway between \<open>0\<close> and \<open>0.0625\<close> and
  is set to \<open>0\<close>.
\<close>

theorem validate_sb_half_counterexample:
  "validate_delay1_sb 0.03125 = 0 \<and> validate_delay1_sb 0.03125 \<noteq> 0.0625 \<and>
   \<bar>0.0625 - 0.03125\<bar> = \<bar>0 - (0.03125::real)\<bar>"
  by (simp add: validate_delay1_sb_def py_mod_def)

subsection \<open>Acquisition\<close>

lemma dict_get_append:
  "length (dict_get (dict_append key x d) k) =
     length (dict_get d k) + (if k = key then 1 else 0)"
  by (cases key; cases k) simp_all

lemma pull_frame_lengths:
  assumes "pull_frame key s = Inr s'"
  shows "length (dict_get (image_dict s') k) =
           length (dict_get (image_dict s) k) + (if k = key then 1 else 0) \<and>
         length (dict_get (image_start_time_dict s') k) =
           length (dict_get (image_start_time_dict s) k) + (if k = key then 1 else 0)"
  using assms
  by (auto simp: pull_frame_def dict_get_append split: list.splits prod.splits)

lemma pull_set_lengths:
  assumes "pull_set [Window1, Window2, Dark] s = Inr s'"
  shows "length (dict_get (image_dict s') k) = length (dict_get (image_dict s) k) + 1 \<and>
         length (dict_get (image_start_time_dict s') k) =
           length (dict_get (image_start_time_dict s) k) + 1"
proof -
  from assms obtain s1 s2 where
    1: "pull_frame Window1 s = Inr s1" and 2: "pull_frame Window2 s1 = Inr s2" and
    3: "pull_frame Dark s2 = Inr s'"
    by (auto split: sum.splits)
  show ?thesis
    using pull_frame_lengths [OF 1, of k] pull_frame_lengths [OF 2, of k]
      pull_frame_lengths [OF 3, of k]
    by (cases k) simp_all
qed

lemma acquire_loop_lengths:
  assumes "acquire_loop sets current_set s = Inr s'"
  shows "length (dict_get (image_dict s') k) =
           length (dict_get (image_dict s) k) + nat (sets - current_set) \<and>
         length (dict_get (image_start_time_dict s') k) =
           length (dict_get (image_start_time_dict s) k) + nat (sets - current_set)"
  using assms
proof (induction sets current_set s rule: acquire_loop.induct)
  case (1 sets current_set s)
  show ?case
  proof (cases "current_set < sets")
    case True
    with "1.prems" obtain s1 where
      p: "pull_set [Window1, Window2, Dark] s = Inr s1" and
      l: "acquire_loop sets (current_set + 1) s1 = Inr s'"
      by (subst (asm) acquire_loop.simps) (auto split: sum.splits)
    have n: "nat (sets - current_set) = 1 + nat (sets - (current_set + 1))"
      using True by simp
    show ?thesis
      using "1.IH" [OF True p l] pull_set_lengths [OF p, of k] n by simp
  next
    case False
    with "1.prems" have "s' = s"
      by (subst (asm) acquire_loop.simps) simp
    with False show ?thesis by simp
  qed
qed

text \<open>
  A run that completes leaves \<open>sets_to_acquire\<close> images per window, and adds as many time
  stamps to the lists it found.
\<close>

lemma acquire_images_lengths:
  assumes "acquire_images params s = Inr s'"
  shows "length (dict_get (image_dict s') k) = nat (sets_to_acquire params) \<and>
         length (dict_get (image_start_time_dict s') k) =
           length (dict_get (image_start_time_dict s) k) + nat (sets_to_acquire params)"
  using acquire_loop_lengths [OF assms [unfolded acquire_images_def], of k]
  by (cases k) (simp_all add: empty_dict_def)

lemma first_run:
  "acquire_images one_set (rld_init six_frames) =
     Inr \<lparr> camera = [(4, [40]), (5, [50]), (6, [60])], serial_out = [''A'' @ [CHR 0x0A]],
           image_dict = \<lparr> window1 = [[10]], window2 = [[20]], dark = [[30]] \<rparr>,
           image_start_time_dict = \<lparr> window1 = [1], window2 = [2], dark = [3] \<rparr> \<rparr>"
  by (simp add: acquire_images_def one_set_def default_params_def rld_init_def six_frames_def
      empty_dict_def acquire_loop.simps pull_frame_def)

text \<open>
  Claim C9, at a second run on the same object. Two runs of one set each, on an object
  created by \<open>rld_init\<close>: after the second run every window holds one image and two time
  stamps, those of the first run included.
\<close>

theorem acquire_images_second_run:
  "ebind (acquire_images one_set (rld_init six_frames)) (acquire_images one_set) =
     Inr \<lparr> camera = [], serial_out = [''A'' @ [CHR 0x0A], ''A'' @ [CHR 0x0A]],
           image_dict = \<lparr> window1 = [[40]], window2 = [[50]], dark = [[60]] \<rparr>,
           image_start_time_dict = \<lparr> window1 = [1, 4], window2 = [2, 5], dark = [3, 6] \<rparr> \<rparr>"
  unfolding first_run
  by (simp add: ebind_def acquire_images_def one_set_def default_params_def
      empty_dict_def acquire_loop.simps pull_frame_def)

subsection \<open>Reading back a written integer\<close>

lemma digit_char_cases:
  assumes "d < 10"
  shows "d = 0 \<or> d = 1 \<or> d = 2 \<or> d = 3 \<or> d = 4 \<or> d = 5 \<or> d = 6 \<or> d = 7 \<or> d = 8 \<or> d = (9::nat)"
  using assms by arith

lemma digit_val_digit_char:
  assumes "d < 10"
  shows "digit_val (digit_char d) = Some d"
  using digit_char_cases [OF assms] by (auto simp: digit_val_def digit_char_def)

lemma digit_char_not_space:
  assumes "d < 10"
  shows "\<not> is_space (digit_char d)"
  using digit_char_cases [OF assms] by (auto simp: is_space_def digit_char_def)

lemma digit_val_underscore: "digit_val CHR ''_'' = None"
  by (simp add: digit_val_def)

lemma take_digits_Cons:
  assumes "digit_val c = Some v" and "cs = [] \<or> hd cs \<noteq> CHR ''_''"
  shows "take_digits (c # cs) = (case take_digits cs of (vs, r) \<Rightarrow> (v # vs, r))"
  using assms by (auto split: list.splits)

lemma take_digits_all:
  assumes "\<forall>c\<in>set s. digit_val c \<noteq> None"
  shows "take_digits s = (map (\<lambda>c. the (digit_val c)) s, [])"
  using assms
proof (induction s)
  case Nil
  show ?case by simp
next
  case (Cons c cs)
  then obtain v where v: "digit_val c = Some v" by auto
  have "cs = [] \<or> hd cs \<noteq> CHR ''_''"
    using Cons.prems digit_val_underscore by (cases cs) auto
  from take_digits_Cons [OF v this] Cons v show ?case by simp
qed

lemma digits_value_snoc: "digits_value (ds @ [d]) = digits_value ds * 10 + d"
  by (simp add: digits_value_def)

lemma str_nat_digits:
  "(\<forall>c\<in>set (str_nat n). digit_val c \<noteq> None) \<and>
   digits_value (map (\<lambda>c. the (digit_val c)) (str_nat n)) = n \<and>
   str_nat n \<noteq> [] \<and> \<not> is_space (hd (str_nat n)) \<and> \<not> is_space (last (str_nat n)) \<and>
   hd (str_nat n) \<noteq> CHR ''-'' \<and> hd (str_nat n) \<noteq> CHR ''+''"
proof (induction n rule: str_nat.induct)
  case (1 n)
  show ?case
  proof (cases "n < 10")
    case True
    then have s: "str_nat n = [digit_char n]"
      by (simp add: str_nat.simps)
    have "digit_char n \<noteq> CHR ''-'' \<and> digit_char n \<noteq> CHR ''+''"
      using digit_val_digit_char [OF True] by (auto simp: digit_val_def)
    then show ?thesis
      using digit_val_digit_char [OF True] digit_char_not_space [OF True]
      by (simp add: s digits_value_def)
  next
    case False
    then have s: "str_nat n = str_nat (n div 10) @ [digit_char (n mod 10)]"
      by (subst str_nat.simps) simp
    have m: "n mod 10 < 10" by simp
    show ?thesis
      using "1.IH" [OF False] digit_val_digit_char [OF m] digit_char_not_space [OF m]
      by (auto simp: s digits_value_snoc)
  qed
qed

lemma py_nat_str_nat: "py_nat (str_nat n) = Some n"
  using str_nat_digits [of n] by (simp add: py_nat_def take_digits_all)

lemma strip_id:
  assumes "s \<noteq> []" and "\<not> is_space (hd s)" and "\<not> is_space (last s)"
  shows "strip s = s"
proof -
  from assms(1,2) have "dropWhile is_space s = s"
    by (cases s) simp_all
  moreover from assms(1,3) have "dropWhile is_space (rev s) = rev s"
    by (cases s rule: rev_cases) simp_all
  ultimately show ?thesis
    by (simp add: strip_def)
qed

text \<open>The numeral written for an integer reads back as that integer.\<close>

lemma py_int_str_int: "py_int (str_int i) = Some i"
proof (cases "i < 0")
  case True
  let ?s = "CHR ''-'' # str_nat (nat (- i))"
  have "strip ?s = ?s"
    using str_nat_digits [of "nat (- i)"] by (intro strip_id) (simp_all add: is_space_def)
  with True show ?thesis
    by (simp add: py_int_def str_int_def py_nat_str_nat)
next
  case False
  let ?s = "str_nat (nat i)"
  have d: "?s \<noteq> [] \<and> hd ?s \<noteq> CHR ''-'' \<and> hd ?s \<noteq> CHR ''+''"
    using str_nat_digits [of "nat i"] by simp
  have "strip ?s = ?s"
    using str_nat_digits [of "nat i"] by (intro strip_id) simp_all
  moreover from d obtain c cs where c: "?s = c # cs" "c \<noteq> CHR ''-''" "c \<noteq> CHR ''+''"
    by (cases ?s) auto
  ultimately have "py_int ?s = map_option int (py_nat ?s)"
    by (simp add: py_int_def)
  with False show ?thesis
    by (simp add: str_int_def py_nat_str_nat)
qed

subsection \<open>Loading and saving settings\<close>

lemma finish_load_cases:
  "finish_load sp r =
     (case r of
        Inl e \<Rightarrow> if e = ValueError then Inr (Some (- 2), sp) else Inl e
      | Inr p \<Rightarrow> if any_minus_one p then Inr (Some (- 1), sp) else Inr (Some 0, p))"
  by (cases r) (auto simp: finish_load_def split: error.splits)

lemma finish_load_keeps:
  assumes "finish_load sp r = Inr (Some st, p)" and "st \<noteq> 0"
  shows "p = sp"
  using assms by (auto simp: finish_load_cases split: sum.splits if_splits)

text \<open>
  Claim C5. When \<open>load_settings_from_file\<close> returns \<open>-1\<close> (a field is missing) or \<open>-2\<close>
  (a value does not convert), \<^verbatim>\<open>self.params\<close> after the call is the parameter set it was
  before the call, in every field.
\<close>

theorem load_settings_failure_keeps_params:
  assumes "load_settings_from_file self_params sfile = Inr (Some st, p)"
    and "st = - 1 \<or> st = - 2"
  shows "p = self_params"
proof -
  from assms(2) have nz: "st \<noteq> 0" by auto
  show ?thesis
  proof (cases sfile)
    case Missing
    with assms(1) show ?thesis by (simp add: load_settings_from_file_def)
  next
    case Malformed
    with assms(1) show ?thesis by (simp add: load_settings_from_file_def)
  next
    case (Parsed settings)
    with assms(1) show ?thesis
      by (auto simp: load_settings_from_file_def split: if_splits dest: finish_load_keeps [OF _ nz])
  qed
qed

lemmas parse_eval = py_int_def py_float_def strip_def is_space_def py_nat_def digit_val_def
  digits_value_def py_unsigned_float_def lower_ascii_def py_decimal_def py_exponent_def
  scale10_def

lemmas cfg_eval = load_settings_from_file_def has_section_def finish_load_cases
  read_current_def read_legacy_def getint_def getfloat_def cfg_get_def any_minus_one_def
  default_params_def

text \<open>
  Witness for C5: a file without \<^verbatim>\<open>exposures_per_frame\<close>, loaded over parameters that
  differ from the defaults.
\<close>

theorem load_settings_failure_keeps_params_witness:
  "\<exists>p. load_settings_from_file one_set (Parsed incomplete_cfg) = Inr (Some (- 1), p) \<and>
       ((- 1 :: int) = - 1 \<or> (- 1 :: int) = - 2) \<and> p = one_set"
proof -
  have e: "load_settings_from_file one_set (Parsed incomplete_cfg) = Inr (Some (- 1), one_set)"
    by (simp add: cfg_eval incomplete_cfg_def parse_eval)
  from load_settings_failure_keeps_params [OF e] e show ?thesis by simp
qed









lemma save_settings_get:
  "save_settings p = Parsed c \<Longrightarrow>
   has_section c ''ImagingParameters'' \<and> \<not> has_section c ''Settings'' \<and>
   cfg_get c ''ImagingParameters'' ''exposure_time_us'' = Some (str_int (exposure_time_us p)) \<and>
   cfg_get c ''ImagingParameters'' ''delay_window1_us'' = Some (str_float (delay_window1_us p)) \<and>
   cfg_get c ''ImagingParameters'' ''delay_window2_us'' = Some (str_float (delay_window2_us p)) \<and>
   cfg_get c ''ImagingParameters'' ''end_delay_us'' = Some (str_int (end_delay_us p)) \<and>
   cfg_get c ''ImagingParameters'' ''pulse_width_us'' = Some (str_float (pulse_width_us p)) \<and>
   cfg_get c ''ImagingParameters'' ''light_intensity'' = Some (str_int (light_intensity p)) \<and>
   cfg_get c ''ImagingParameters'' ''sets_to_acquire'' = Some (str_int (sets_to_acquire p)) \<and>
   cfg_get c ''ImagingParameters'' ''exposures_per_frame'' =
     Some (str_int (exposures_per_frame p))"
  by (auto simp: save_settings_def cfg_get_def has_section_def)

lemma read_current_saved:
  assumes "save_settings p = Parsed c"
    and "representable (delay_window1_us p)" and "representable (delay_window2_us p)"
    and "representable (pulse_width_us p)"
  shows "read_current c q =
           Inr (q\<lparr> exposure_time_us := exposure_time_us p,
                   delay_window1_us := delay_window1_us p,
                   delay_window2_us := delay_window2_us p,
                   end_delay_us := end_delay_us p, pulse_width_us := pulse_width_us p,
                   light_intensity := light_intensity p,
                   sets_to_acquire := sets_to_acquire p,
                   exposures_per_frame := exposures_per_frame p \<rparr>)"
  using save_settings_get [OF assms(1)] assms(2-4)
  by (simp add: read_current_def getint_def getfloat_def py_int_str_int representable_def)

text \<open>
  Claim C8, as amended. For a parameter set none of whose fields equals \<open>-1\<close> and whose three
  float fields are representable, loading the file that \<open>save_settings\<close> writes returns \<open>0\<close>
  and installs exactly that parameter set.
\<close>

theorem save_load_roundtrip:
  assumes "\<not> any_minus_one p"
    and "representable (delay_window1_us p)" and "representable (delay_window2_us p)"
    and "representable (pulse_width_us p)"
  shows "load_settings_from_file self_params (save_settings p) = Inr (Some 0, p)"
proof -
  obtain c where c: "save_settings p = Parsed c"
    by (simp add: save_settings_def)
  have "default_params\<lparr> exposure_time_us := exposure_time_us p,
                   delay_window1_us := delay_window1_us p,
                   delay_window2_us := delay_window2_us p,
                   end_delay_us := end_delay_us p, pulse_width_us := pulse_width_us p,
                   light_intensity := light_intensity p,
                   sets_to_acquire := sets_to_acquire p,
                   exposures_per_frame := exposures_per_frame p \<rparr> = p"
    by (simp add: default_params_def)
  with read_current_saved [OF c assms(2-4), of default_params]
  have "read_current c default_params = Inr p" by simp
  with save_settings_get [OF c] assms(1) show ?thesis
    by (simp add: c load_settings_from_file_def finish_load_cases)
qed

lemma representable_defaults:
  "representable (Fin 2.5) \<and> representable (Fin 22.5) \<and> representable (Fin 40)"
  by (simp add: representable_def text_eval parse_eval)

text \<open>Witness for C8: the default parameters, loaded over a different parameter set.\<close>

theorem save_load_roundtrip_witness:
  "\<not> any_minus_one default_params \<and> representable (delay_window1_us default_params) \<and>
   representable (delay_window2_us default_params) \<and>
   representable (pulse_width_us default_params) \<and>
   load_settings_from_file one_set (save_settings default_params) = Inr (Some 0, default_params)"
proof -
  have a: "\<not> any_minus_one default_params"
    by (simp add: any_minus_one_def default_params_def)
  have r: "representable (delay_window1_us default_params)"
    "representable (delay_window2_us default_params)"
    "representable (pulse_width_us default_params)"
    using representable_defaults by (simp_all add: default_params_def)
  from save_load_roundtrip [OF a r, of one_set] a r show ?thesis by simp
qed

text \<open>
  Counterexample to C8 as stated: the defaults with \<open>end_delay_us = -1\<close>. Every field is
  written and reads back, and the result is \<open>-1\<close>: the value collides with the fallback.
\<close>

theorem save_load_sentinel_counterexample:
  "representable (delay_window1_us (default_params\<lparr> end_delay_us := - 1 \<rparr>)) \<and>
   representable (delay_window2_us (default_params\<lparr> end_delay_us := - 1 \<rparr>)) \<and>
   representable (pulse_width_us (default_params\<lparr> end_delay_us := - 1 \<rparr>)) \<and>
   load_settings_from_file default_params (save_settings (default_params\<lparr> end_delay_us := - 1 \<rparr>))
     = Inr (Some (- 1), default_params)"
proof -
  let ?p = "default_params\<lparr> end_delay_us := - 1 \<rparr>"
  obtain c where c: "save_settings ?p = Parsed c"
    by (simp add: save_settings_def)
  have r: "representable (delay_window1_us ?p)" "representable (delay_window2_us ?p)"
    "representable (pulse_width_us ?p)"
    using representable_defaults by (simp_all add: default_params_def)
  have "read_current c default_params = Inr ?p"
    using read_current_saved [OF c r, of default_params] by (simp add: default_params_def)
  moreover have "any_minus_one ?p"
    by (simp add: any_minus_one_def)
  ultimately show ?thesis
    using save_settings_get [OF c] r
    by (simp add: c load_settings_from_file_def finish_load_cases)
qed

lemma read_legacy_delay_window1:
  assumes "read_legacy c q = Inr p"
  shows "delay_window1_us p = delay_window1_us q"
  using assms
  by (auto simp: read_legacy_def ebind_def split: sum.splits)

lemma legacy_complete_get:
  assumes "legacy_complete c" and "k \<in> set legacy_keys"
  shows "\<exists>i. getint c ''Settings'' k (- 1) = Inr i \<and> i \<noteq> - 1"
proof -
  from assms have
    "case cfg_get c ''Settings'' k of None \<Rightarrow> False
     | Some v \<Rightarrow> (case py_int v of None \<Rightarrow> False | Some i \<Rightarrow> i \<noteq> - 1)"
    by (simp add: legacy_complete_def list_all_iff)
  then show ?thesis
    by (cases "cfg_get c ''Settings'' k"; cases "py_int (the (cfg_get c ''Settings'' k))")
       (simp_all add: getint_def)
qed

lemma read_legacy_complete:
  assumes "legacy_complete c"
  shows "\<exists>p. read_legacy c default_params = Inr p \<and> \<not> any_minus_one p"
proof -
  have k: "''exposure_us'' \<in> set legacy_keys" "''delay_window2_us'' \<in> set legacy_keys"
    "''end_delay_us'' \<in> set legacy_keys" "''light_pulse_width_us'' \<in> set legacy_keys"
    "''light_intensity'' \<in> set legacy_keys" "''sets_to_acquire'' \<in> set legacy_keys"
    "''exposures_per_frame'' \<in> set legacy_keys"
    by (simp_all add: legacy_keys_def)
  from k [THEN legacy_complete_get [OF assms]] show ?thesis
    by (auto simp: read_legacy_def any_minus_one_def default_params_def)
qed

text \<open>
  Claim C10. For a file with a \<^verbatim>\<open>Settings\<close> section and no section of the current schema:
  whenever the load returns \<open>0\<close>, the installed \<open>delay_window1_us\<close> is the default \<open>2.5\<close>;
  and the load does return \<open>0\<close> as soon as the seven legacy keys hold integers other than
  \<open>-1\<close>, whatever the file says or does not say about \<^verbatim>\<open>delay_window1_us\<close>.
\<close>

theorem load_legacy_delay_window1_default:
  assumes "\<not> has_section c ''ImagingParameters''" and "has_section c ''Settings''"
  shows "(\<forall>p. load_settings_from_file self_params (Parsed c) = Inr (Some 0, p) \<longrightarrow>
               delay_window1_us p = Fin 2.5) \<and>
         (legacy_complete c \<longrightarrow>
            (\<exists>p. load_settings_from_file self_params (Parsed c) = Inr (Some 0, p)))"
proof (intro conjI allI impI)
  fix p
  assume "load_settings_from_file self_params (Parsed c) = Inr (Some 0, p)"
  with assms have "read_legacy c default_params = Inr p"
    by (auto simp: load_settings_from_file_def finish_load_cases split: sum.splits if_splits)
  from read_legacy_delay_window1 [OF this] show "delay_window1_us p = Fin 2.5"
    by (simp add: default_params_def)
next
  assume "legacy_complete c"
  from read_legacy_complete [OF this] assms
  show "\<exists>p. load_settings_from_file self_params (Parsed c) = Inr (Some 0, p)"
    by (auto simp: load_settings_from_file_def finish_load_cases)
qed

text \<open>Witness for C10: a legacy file whose \<^verbatim>\<open>delay_window1_us\<close> line says \<open>7\<close>.\<close>

theorem load_legacy_delay_window1_default_witness:
  "\<not> has_section legacy_cfg ''ImagingParameters'' \<and> has_section legacy_cfg ''Settings'' \<and>
   legacy_complete legacy_cfg \<and>
   cfg_get legacy_cfg ''Settings'' ''delay_window1_us'' = Some ''7'' \<and>
   (\<exists>p. load_settings_from_file one_set (Parsed legacy_cfg) = Inr (Some 0, p) \<and>
        delay_window1_us p = Fin 2.5)"
proof -
  have a: "\<not> has_section legacy_cfg ''ImagingParameters''"
    by (simp add: legacy_cfg_def has_section_def)
  have b: "has_section legacy_cfg ''Settings''"
    by (simp add: legacy_cfg_def has_section_def)
  have l: "legacy_complete legacy_cfg"
    by (simp add: legacy_complete_def legacy_keys_def legacy_cfg_def cfg_get_def parse_eval)
  have g: "cfg_get legacy_cfg ''Settings'' ''delay_window1_us'' = Some ''7''"
    by (simp add: legacy_cfg_def cfg_get_def)
  from load_legacy_delay_window1_default [OF a b, of one_set] a b l g show ?thesis
    by blast
qed

end
